theory Spec2Isabelle
  imports Complex_Main
begin

section \<open>Values crossing the request boundary\<close>

text \<open>
  The handlers of \<^verbatim>\<open>src/Server/server.js\<close> read the fields of a parsed JSON body.
  A field is a scalar JavaScript value here; a JSON number is a rational (every finite
  double is one, and the order the code tests with \<^verbatim>\<open>< 0\<close> is the order of the rationals).
  Array- and object-valued fields are given their own types where a handler iterates or
  dereferences them (\<^verbatim>\<open>items\<close>, \<^verbatim>\<open>memberDetails\<close>).
\<close>

datatype jsval = JUndefined | JNull | JBool bool | JNum rat | JStr string

text \<open>JavaScript truthiness, as used by \<^verbatim>\<open>!name\<close>, \<^verbatim>\<open>a || b\<close> and \<^verbatim>\<open>if (memberDetails)\<close>.\<close>

fun truthy :: "jsval \<Rightarrow> bool" where
  "truthy JUndefined = False"
| "truthy JNull = False"
| "truthy (JBool b) = b"
| "truthy (JNum r) = (r \<noteq> 0)"
| "truthy (JStr s) = (s \<noteq> [])"

definition js_or :: "jsval \<Rightarrow> jsval \<Rightarrow> jsval" where
  "js_or a b = (if truthy a then a else b)"

text \<open>\<^verbatim>\<open>typeof v === 'number'\<close>\<close>

fun is_number :: "jsval \<Rightarrow> bool" where
  "is_number (JNum r) = True"
| "is_number v = False"

section \<open>Identifier allocation (POST /api/members, lines 413-434)\<close>

definition is_digit :: "char \<Rightarrow> bool" where
  "is_digit c = (c \<in> set ''0123456789'')"

definition digit_val :: "char \<Rightarrow> nat" where
  "digit_val c = of_char c - 48"

definition digit_char :: "nat \<Rightarrow> char" where
  "digit_char d = char_of (48 + d)"

text \<open>\<^verbatim>\<open>member_id.match(/\d+/)\<close>: the leftmost maximal run of ASCII digits, or null.\<close>

definition match_digits :: "string \<Rightarrow> string option" where
  "match_digits s =
     (let r = takeWhile is_digit (dropWhile (\<lambda>c. \<not> is_digit c) s)
      in if r = [] then None else Some r)"

definition decimal_value :: "string \<Rightarrow> nat" where
  "decimal_value ds = foldl (\<lambda>n c. 10 * n + digit_val c) 0 ds"

text \<open>
  \<^verbatim>\<open>parseInt(str, 10)\<close> on a string that starts with a digit: the value of the leading
  digits; NaN (\<open>None\<close>) when there is none. JavaScript numbers are doubles; a natural
  number stands for one exactly up to \<open>MAX_SAFE_INTEGER\<close>.
\<close>

definition parseInt10 :: "string \<Rightarrow> nat option" where
  "parseInt10 s =
     (let ds = takeWhile is_digit s in if ds = [] then None else Some (decimal_value ds))"


text \<open>One round of the \<^verbatim>\<open>allMembers.forEach\<close> callback, on the running \<^verbatim>\<open>maxNumber\<close>.\<close>

definition scan_member :: "nat \<Rightarrow> string \<Rightarrow> nat" where
  "scan_member maxNumber member_id =
     (case match_digits member_id of
        None \<Rightarrow> maxNumber
      | Some m \<Rightarrow>
          (case parseInt10 m of
             None \<Rightarrow> maxNumber
           | Some num \<Rightarrow> if num > maxNumber then num else maxNumber))"

definition maxNumber_of :: "string list \<Rightarrow> nat" where
  "maxNumber_of allMembers = foldl scan_member 0 allMembers"

text \<open>\<^verbatim>\<open>String(n)\<close> for a natural number: its decimal digits.\<close>

fun string_of_nat :: "nat \<Rightarrow> string" where
  "string_of_nat n =
     (if n < 10 then [digit_char n] else string_of_nat (n div 10) @ [digit_char (n mod 10)])"

declare string_of_nat.simps [simp del]

text \<open>\<^verbatim>\<open>s.padStart(n, c)\<close> with a one-character pad string.\<close>

definition padStart :: "nat \<Rightarrow> char \<Rightarrow> string \<Rightarrow> string" where
  "padStart n c s = replicate (n - length s) c @ s"

definition nextMemberId :: "string list \<Rightarrow> string" where
  "nextMemberId allMembers =
     (let nextNumber = maxNumber_of allMembers + 1
      in ''M'' @ padStart 3 (CHR ''0'') (string_of_nat nextNumber))"


section \<open>Storage: tables, one pooled connection, statement faults\<close>

text \<open>
  What a statement binds for a JavaScript value: \<^verbatim>\<open>undefined\<close> and \<^verbatim>\<open>null\<close> are NULL, a
  boolean is 1 or 0. The schema is not part of the source: a column holds the value the
  handler binds, a WHERE clause compares exactly, and whatever a constraint of the schema
  would reject appears as a fault of that statement.
\<close>

datatype sqlval = SqlNull | SqlNum rat | SqlStr string

fun bind_param :: "jsval \<Rightarrow> sqlval" where
  "bind_param JUndefined = SqlNull"
| "bind_param JNull = SqlNull"
| "bind_param (JBool b) = SqlNum (if b then 1 else 0)"
| "bind_param (JNum r) = SqlNum r"
| "bind_param (JStr s) = SqlStr s"

record inventory_row =
  inv_id :: nat
  inv_name :: sqlval
  inv_sku :: sqlval
  inv_category :: sqlval
  inv_stock :: sqlval
  inv_price :: sqlval
  inv_reorder_point :: sqlval
  inv_brand :: sqlval

record stock_history_row =
  sh_inventory_id :: nat
  sh_old_quantity :: sqlval
  sh_new_quantity :: sqlval
  sh_change_reason :: sqlval

record sales_row =
  s_id :: nat
  s_transaction_id :: sqlval
  s_customer_name :: sqlval
  s_member_id :: sqlval
  s_payment_method :: sqlval
  s_subtotal :: sqlval
  s_discount :: sqlval
  s_sst :: sqlval
  s_total_amount :: sqlval

record sales_items_row =
  si_sale_id :: nat
  si_product_id :: sqlval
  si_quantity :: sqlval
  si_price_per_unit :: sqlval
  si_discount_percentage :: sqlval

record members_row =
  m_member_id :: string
  m_name :: sqlval
  m_email :: sqlval
  m_phone :: sqlval
  m_tier :: sqlval
  m_points :: sqlval
  m_join_date :: sqlval
  m_total_spent :: sqlval

record member_points_history_row =
  ph_member_id :: sqlval
  ph_sale_id :: nat
  ph_points_earned :: sqlval
  ph_points_balance :: sqlval

record db =
  inventory :: "inventory_row list"
  stock_history :: "stock_history_row list"
  sales :: "sales_row list"
  sales_items :: "sales_items_row list"
  members :: "members_row list"
  member_points_history :: "member_points_history_row list"

datatype stmt =
    SelectInventory | UpdateInventoryStock | InsertStockHistory
  | InsertSale | InsertSaleItem | InsertPointsHistory | UpdateMemberPoints
  | SelectMemberIds | InsertMember | SelectMember

datatype event =
  EvGetConnection | EvBeginTransaction | EvQuery stmt | EvCommit | EvRollback | EvRelease

fun is_write :: "event \<Rightarrow> bool" where
  "is_write (EvQuery SelectInventory) = False"
| "is_write (EvQuery SelectMemberIds) = False"
| "is_write (EvQuery SelectMember) = False"
| "is_write (EvQuery q) = True"
| "is_write e = False"

text \<open>
  The storage as one request sees it. \<open>committed\<close> is what every other connection
  observes; \<open>working\<close> is the view of the request's own connection, with the writes of
  its open transaction; the AUTO_INCREMENT counter of \<^verbatim>\<open>sales\<close> is not transactional.
  \<open>faults\<close> says, for each storage call to come, whether it throws (none left: none
  throws); \<open>trace\<close> records the calls issued.
\<close>

record server =
  committed :: db
  working :: db
  in_tx :: bool
  sales_auto_increment :: nat
  faults :: "bool list"
  trace :: "event list"

datatype exn = StorageFault | TypeError | JsError string

type_synonym 'a io = "server \<Rightarrow> (exn + 'a) \<times> server"

definition io_return :: "'a \<Rightarrow> 'a io" where
  "io_return x s = (Inr x, s)"

definition io_throw :: "exn \<Rightarrow> 'a io" where
  "io_throw e s = (Inl e, s)"

definition io_bind :: "'a io \<Rightarrow> ('a \<Rightarrow> 'b io) \<Rightarrow> 'b io" where
  "io_bind m f s = (case m s of (Inl e, s') \<Rightarrow> (Inl e, s') | (Inr x, s') \<Rightarrow> f x s')"

text \<open>\<^verbatim>\<open>try { m } catch (error) { h error }\<close>\<close>

definition io_catch :: "'a io \<Rightarrow> (exn \<Rightarrow> 'a io) \<Rightarrow> 'a io" where
  "io_catch m h s = (case m s of (Inl e, s') \<Rightarrow> h e s' | (Inr x, s') \<Rightarrow> (Inr x, s'))"

text \<open>\<^verbatim>\<open>try { m } finally { f }\<close>, for a block \<open>f\<close> that does not throw.\<close>

definition io_finally :: "'a io \<Rightarrow> (server \<Rightarrow> server) \<Rightarrow> 'a io" where
  "io_finally m f s = (case m s of (r, s') \<Rightarrow> (r, f s'))"

definition next_fault :: "server \<Rightarrow> bool" where
  "next_fault s = (case faults s of [] \<Rightarrow> False | f # fs \<Rightarrow> f)"

text \<open>An awaited call to the storage: it is recorded, and throws or takes effect.\<close>

definition storage_call :: "event \<Rightarrow> (server \<Rightarrow> 'a \<times> server) \<Rightarrow> 'a io" where
  "storage_call ev eff s =
     (let s1 = s\<lparr>faults := tl (faults s), trace := trace s @ [ev]\<rparr>
      in if next_fault s then (Inl StorageFault, s1)
         else (case eff s1 of (x, s2) \<Rightarrow> (Inr x, s2)))"

text \<open>A write reaches \<open>committed\<close> at once when no transaction is open (autocommit).\<close>

definition apply_write :: "(db \<Rightarrow> db) \<Rightarrow> server \<Rightarrow> server" where
  "apply_write f s =
     (let w = f (working s)
      in s\<lparr>working := w, committed := (if in_tx s then committed s else w)\<rparr>)"

definition getConnection :: "unit io" where
  "getConnection = storage_call EvGetConnection (\<lambda>s. ((), s))"

text \<open>START TRANSACTION commits a transaction the connection still has open.\<close>

definition beginTransaction :: "unit io" where
  "beginTransaction =
     storage_call EvBeginTransaction (\<lambda>s. ((), s\<lparr>committed := working s, in_tx := True\<rparr>))"

definition commit :: "unit io" where
  "commit = storage_call EvCommit (\<lambda>s. ((), s\<lparr>committed := working s, in_tx := False\<rparr>))"

definition rollback :: "unit io" where
  "rollback = storage_call EvRollback (\<lambda>s. ((), s\<lparr>working := committed s, in_tx := False\<rparr>))"

definition release :: "server \<Rightarrow> server" where
  "release s = s\<lparr>trace := trace s @ [EvRelease]\<rparr>"

definition db_select :: "stmt \<Rightarrow> (db \<Rightarrow> 'a) \<Rightarrow> 'a io" where
  "db_select q f = storage_call (EvQuery q) (\<lambda>s. (f (working s), s))"

definition db_write :: "stmt \<Rightarrow> (db \<Rightarrow> db) \<Rightarrow> unit io" where
  "db_write q f = storage_call (EvQuery q) (\<lambda>s. ((), apply_write f s))"

subsection \<open>The statements of the handlers\<close>

text \<open>\<^verbatim>\<open>SELECT * FROM inventory WHERE id = ?\<close>\<close>

definition select_inventory :: "nat \<Rightarrow> inventory_row list io" where
  "select_inventory i = db_select SelectInventory (\<lambda>d. filter (\<lambda>r. inv_id r = i) (inventory d))"

text \<open>\<^verbatim>\<open>UPDATE inventory SET stock = ? WHERE id = ?\<close>\<close>

definition set_stock :: "sqlval \<Rightarrow> nat \<Rightarrow> db \<Rightarrow> db" where
  "set_stock q i d =
     d\<lparr>inventory := map (\<lambda>r. if inv_id r = i then r\<lparr>inv_stock := q\<rparr> else r) (inventory d)\<rparr>"

definition update_inventory_stock :: "sqlval \<Rightarrow> nat \<Rightarrow> unit io" where
  "update_inventory_stock q i = db_write UpdateInventoryStock (set_stock q i)"

text \<open>\<^verbatim>\<open>INSERT INTO stock_history (inventory_id, old_quantity, new_quantity, change_reason)\<close>\<close>

definition add_stock_history :: "stock_history_row \<Rightarrow> db \<Rightarrow> db" where
  "add_stock_history h d = d\<lparr>stock_history := stock_history d @ [h]\<rparr>"

definition insert_stock_history :: "stock_history_row \<Rightarrow> unit io" where
  "insert_stock_history h = db_write InsertStockHistory (add_stock_history h)"

text \<open>\<^verbatim>\<open>INSERT INTO sales (...)\<close>; the result carries \<^verbatim>\<open>insertId\<close>.\<close>

definition add_sale :: "sales_row \<Rightarrow> db \<Rightarrow> db" where
  "add_sale r d = d\<lparr>sales := sales d @ [r]\<rparr>"

definition insert_sale :: "sales_row \<Rightarrow> nat io" where
  "insert_sale r =
     storage_call (EvQuery InsertSale)
       (\<lambda>s. let insertId = sales_auto_increment s
            in (insertId,
                apply_write (add_sale (r\<lparr>s_id := insertId\<rparr>))
                  (s\<lparr>sales_auto_increment := insertId + 1\<rparr>)))"

text \<open>\<^verbatim>\<open>INSERT INTO sales_items (...)\<close>\<close>

definition add_sale_item :: "sales_items_row \<Rightarrow> db \<Rightarrow> db" where
  "add_sale_item r d = d\<lparr>sales_items := sales_items d @ [r]\<rparr>"

definition insert_sale_item :: "sales_items_row \<Rightarrow> unit io" where
  "insert_sale_item r = db_write InsertSaleItem (add_sale_item r)"

text \<open>\<^verbatim>\<open>INSERT INTO member_points_history (...)\<close>\<close>

definition add_points_history :: "member_points_history_row \<Rightarrow> db \<Rightarrow> db" where
  "add_points_history h d = d\<lparr>member_points_history := member_points_history d @ [h]\<rparr>"

definition insert_points_history :: "member_points_history_row \<Rightarrow> unit io" where
  "insert_points_history h = db_write InsertPointsHistory (add_points_history h)"

text \<open>\<^verbatim>\<open>UPDATE members SET points = ? WHERE member_id = ?\<close>\<close>

definition set_points :: "sqlval \<Rightarrow> sqlval \<Rightarrow> db \<Rightarrow> db" where
  "set_points p i d =
     d\<lparr>members := map (\<lambda>r. if SqlStr (m_member_id r) = i then r\<lparr>m_points := p\<rparr> else r) (members d)\<rparr>"

definition update_member_points :: "sqlval \<Rightarrow> sqlval \<Rightarrow> unit io" where
  "update_member_points p i = db_write UpdateMemberPoints (set_points p i)"

text \<open>
  \<^verbatim>\<open>SELECT member_id FROM members ORDER BY member_id ASC\<close>. The rows come in table order
  here; the scan that consumes them takes a maximum. A member identifier is a string
  in every row.
\<close>

definition select_member_ids :: "string list io" where
  "select_member_ids = db_select SelectMemberIds (\<lambda>d. map m_member_id (members d))"

text \<open>\<^verbatim>\<open>INSERT INTO members (...)\<close>\<close>

definition add_member :: "members_row \<Rightarrow> db \<Rightarrow> db" where
  "add_member r d = d\<lparr>members := members d @ [r]\<rparr>"

definition insert_member :: "members_row \<Rightarrow> unit io" where
  "insert_member r = db_write InsertMember (add_member r)"

text \<open>\<^verbatim>\<open>SELECT m.*, ... FROM members m ... WHERE m.member_id = ?\<close> (the tier join adds a column).\<close>

definition select_member :: "string \<Rightarrow> members_row list io" where
  "select_member i = db_select SelectMember (\<lambda>d. filter (\<lambda>r. m_member_id r = i) (members d))"

section \<open>The handlers\<close>

datatype body =
    ErrorBody string
  | ItemBody "inventory_row option"
  | SaleRecorded nat jsval
  | MemberBody "members_row option"
  | SuccessTrue
  | RegistrationFailed exn

datatype response = Response (status: nat) (body: body)

text \<open>\<^verbatim>\<open>rows[0]\<close>, undefined on an empty result.\<close>

definition first_row :: "'a list \<Rightarrow> 'a option" where
  "first_row rows = (case rows of [] \<Rightarrow> None | r # rest \<Rightarrow> Some r)"

text \<open>
  A handler ends with the response it sent, or with none when its promise was rejected
  (an exception that no \<^verbatim>\<open>catch\<close> block of the handler took).
\<close>

definition run_handler :: "response io \<Rightarrow> server \<Rightarrow> response option \<times> server" where
  "run_handler h s = (case h s of (Inl e, s') \<Rightarrow> (None, s') | (Inr r, s') \<Rightarrow> (Some r, s'))"

subsection \<open>PATCH /api/inventory/:id/stock (lines 105-154)\<close>

text \<open>\<^verbatim>\<open>typeof newQuantity !== 'number' || newQuantity < 0\<close>\<close>

definition invalid_quantity :: "jsval \<Rightarrow> bool" where
  "invalid_quantity newQuantity = (case newQuantity of JNum r \<Rightarrow> r < 0 | _ \<Rightarrow> True)"

text \<open>The route parameter \<^verbatim>\<open>req.params.id\<close> is given as the row key it denotes.\<close>

definition adjustStock_try :: "nat \<Rightarrow> jsval \<Rightarrow> jsval \<Rightarrow> response io" where
  "adjustStock_try i newQuantity reason =
     io_bind beginTransaction (\<lambda>_.
       if invalid_quantity newQuantity
       then io_return (Response 400 (ErrorBody ''Invalid quantity''))
       else
         io_bind (select_inventory i) (\<lambda>currentItem.
           case currentItem of
             [] \<Rightarrow>
               io_bind rollback (\<lambda>_. io_return (Response 404 (ErrorBody ''Item not found'')))
           | item0 # _ \<Rightarrow>
               io_bind (update_inventory_stock (bind_param newQuantity) i) (\<lambda>_.
               io_bind (insert_stock_history
                          \<lparr>sh_inventory_id = i, sh_old_quantity = inv_stock item0,
                           sh_new_quantity = bind_param newQuantity,
                           sh_change_reason = bind_param reason\<rparr>) (\<lambda>_.
               io_bind commit (\<lambda>_.
               io_bind (select_inventory i) (\<lambda>updatedItem.
               io_return (Response 200 (ItemBody (first_row updatedItem)))))))))"

definition adjustStock_catch :: "exn \<Rightarrow> response io" where
  "adjustStock_catch error =
     io_bind rollback (\<lambda>_. io_return (Response 500 (ErrorBody ''Failed to update stock level'')))"

definition adjustStock :: "nat \<Rightarrow> jsval \<Rightarrow> jsval \<Rightarrow> server \<Rightarrow> response option \<times> server" where
  "adjustStock i newQuantity reason =
     run_handler
       (io_bind getConnection (\<lambda>_.
          io_finally
            (io_catch (adjustStock_try i newQuantity reason) adjustStock_catch)
            release))"

subsection \<open>POST /api/sales (lines 235-296)\<close>

record sale_item =
  item_id :: jsval
  item_quantity :: jsval
  item_price :: jsval
  item_discount :: jsval

record member_details =
  pointsEarned :: jsval
  newTotalPoints :: jsval

text \<open>
  The request body. \<open>items\<close> is \<open>None\<close> when the field is not iterable (absent, null, a
  number), so that the \<^verbatim>\<open>for ... of\<close> loop throws; an element is \<open>None\<close> when it is null
  or undefined, so that \<^verbatim>\<open>item.id\<close> throws; any other element is read through its four
  properties, \<^verbatim>\<open>undefined\<close> where it has none. \<open>memberDetails\<close> is \<open>None\<close> when the
  field is falsy; a truthy value is read through its two properties in the same way.
\<close>

record sale_request =
  transactionId :: jsval
  customerName :: jsval
  memberId :: jsval
  paymentMethod :: jsval
  items :: "sale_item option list option"
  subtotal :: jsval
  discount :: jsval
  sst :: jsval
  totalAmount :: jsval
  memberDetails :: "member_details option"

definition sale_row_of :: "sale_request \<Rightarrow> sales_row" where
  "sale_row_of req =
     \<lparr>s_id = 0,
      s_transaction_id = bind_param (transactionId req),
      s_customer_name = bind_param (customerName req),
      s_member_id = bind_param (js_or (memberId req) JNull),
      s_payment_method = bind_param (paymentMethod req),
      s_subtotal = bind_param (subtotal req),
      s_discount = bind_param (discount req),
      s_sst = bind_param (sst req),
      s_total_amount = bind_param (totalAmount req)\<rparr>"

definition sale_item_row :: "nat \<Rightarrow> sale_item \<Rightarrow> sales_items_row" where
  "sale_item_row saleId item =
     \<lparr>si_sale_id = saleId,
      si_product_id = bind_param (item_id item),
      si_quantity = bind_param (item_quantity item),
      si_price_per_unit = bind_param (item_price item),
      si_discount_percentage = bind_param (js_or (item_discount item) (JNum 0))\<rparr>"

text \<open>\<^verbatim>\<open>for (const item of items) { await connection.query(INSERT ...) }\<close>\<close>

fun insert_each :: "nat \<Rightarrow> sale_item option list \<Rightarrow> unit io" where
  "insert_each saleId [] = io_return ()"
| "insert_each saleId (None # rest) = io_throw TypeError"
| "insert_each saleId (Some item # rest) =
     io_bind (insert_sale_item (sale_item_row saleId item)) (\<lambda>_. insert_each saleId rest)"

definition insert_items :: "nat \<Rightarrow> sale_item option list option \<Rightarrow> unit io" where
  "insert_items saleId its =
     (case its of None \<Rightarrow> io_throw TypeError | Some xs \<Rightarrow> insert_each saleId xs)"

definition points_row :: "sale_request \<Rightarrow> nat \<Rightarrow> member_details \<Rightarrow> member_points_history_row" where
  "points_row req saleId md =
     \<lparr>ph_member_id = bind_param (memberId req), ph_sale_id = saleId,
      ph_points_earned = bind_param (pointsEarned md),
      ph_points_balance = bind_param (newTotalPoints md)\<rparr>"

definition update_points :: "sale_request \<Rightarrow> nat \<Rightarrow> unit io" where
  "update_points req saleId =
     (case memberDetails req of
        None \<Rightarrow> io_return ()
      | Some md \<Rightarrow>
          io_bind (insert_points_history (points_row req saleId md)) (\<lambda>_.
          update_member_points (bind_param (newTotalPoints md)) (bind_param (memberId req))))"

definition commitSale_try :: "sale_request \<Rightarrow> response io" where
  "commitSale_try req =
     io_bind beginTransaction (\<lambda>_.
     io_bind (insert_sale (sale_row_of req)) (\<lambda>saleId.
     io_bind (insert_items saleId (items req)) (\<lambda>_.
     io_bind (update_points req saleId) (\<lambda>_.
     io_bind commit (\<lambda>_.
     io_return (Response 201 (SaleRecorded saleId (transactionId req))))))))"

definition commitSale_catch :: "exn \<Rightarrow> response io" where
  "commitSale_catch error =
     io_bind rollback (\<lambda>_. io_return (Response 500 (ErrorBody ''Failed to record sale'')))"

definition commitSale :: "sale_request \<Rightarrow> server \<Rightarrow> response option \<times> server" where
  "commitSale req =
     run_handler
       (io_bind getConnection (\<lambda>_.
          io_finally (io_catch (commitSale_try req) commitSale_catch) release))"

subsection \<open>PATCH /api/members/:id/points (lines 351-363)\<close>

definition updateMemberPoints :: "string \<Rightarrow> jsval \<Rightarrow> server \<Rightarrow> response option \<times> server" where
  "updateMemberPoints i points =
     run_handler
       (io_catch
          (io_bind (update_member_points (bind_param points) (SqlStr i)) (\<lambda>_.
           io_return (Response 200 SuccessTrue)))
          (\<lambda>error. io_return (Response 500 (ErrorBody ''Failed to update points''))))"

subsection \<open>POST /api/members (lines 400-468)\<close>

record member_request =
  name :: jsval
  email :: jsval
  phone :: jsval
  tier :: jsval

text \<open>\<^verbatim>\<open>!name || !email || !phone || !tier\<close>\<close>

definition missing_fields :: "member_request \<Rightarrow> bool" where
  "missing_fields req =
     (\<not> (truthy (name req) \<and> truthy (email req) \<and> truthy (phone req) \<and> truthy (tier req)))"

text \<open>\<open>today\<close> is the value of \<^verbatim>\<open>CURDATE()\<close>.\<close>

definition new_member_row :: "string \<Rightarrow> member_request \<Rightarrow> sqlval \<Rightarrow> members_row" where
  "new_member_row memberId' req today =
     \<lparr>m_member_id = memberId', m_name = bind_param (name req),
      m_email = bind_param (email req), m_phone = bind_param (phone req),
      m_tier = bind_param (tier req), m_points = SqlNum 0, m_join_date = today,
      m_total_spent = SqlNum 0\<rparr>"

definition createMember_try :: "member_request \<Rightarrow> sqlval \<Rightarrow> response io" where
  "createMember_try req today =
     (if missing_fields req
      then io_throw (JsError ''Name, email, phone and tier are required'')
      else
        io_bind select_member_ids (\<lambda>allMembers.
        io_bind (insert_member (new_member_row (nextMemberId allMembers) req today)) (\<lambda>_.
        io_bind (select_member (nextMemberId allMembers)) (\<lambda>newMember.
        io_return (Response 201 (MemberBody (first_row newMember)))))))"

definition createMember_catch :: "exn \<Rightarrow> response io" where
  "createMember_catch error = io_return (Response 500 (RegistrationFailed error))"

definition createMember :: "member_request \<Rightarrow> sqlval \<Rightarrow> server \<Rightarrow> response option \<times> server" where
  "createMember req today =
     run_handler
       (io_bind getConnection (\<lambda>_.
          io_finally (io_catch (createMember_try req today) createMember_catch) release))"

section \<open>What the specification observes\<close>

text \<open>No write of an open transaction is pending on the connection the request is given.\<close>

definition no_pending_writes :: "server \<Rightarrow> bool" where
  "no_pending_writes s = (working s = committed s)"

text \<open>The stock quantity of an item: the \<open>stock\<close> column of the row with that key.\<close>

definition stock_of :: "db \<Rightarrow> nat \<Rightarrow> sqlval option" where
  "stock_of d i = map_option inv_stock (find (\<lambda>r. inv_id r = i) (inventory d))"


text \<open>
  The storage \<open>d'\<close> is \<open>d\<close> after one sale with identifier \<open>saleId\<close> and line items \<open>ys\<close>:
  one Sale row, one SaleLineItem row per item in the order given, and, when the request
  carries member details, one points-history entry and the balance of the member
  overwritten; nothing else differs.
\<close>

definition sale_recorded :: "sale_request \<Rightarrow> nat \<Rightarrow> sale_item list \<Rightarrow> db \<Rightarrow> db \<Rightarrow> bool" where
  "sale_recorded req saleId ys d d' =
     (sales d' = sales d @ [(sale_row_of req)\<lparr>s_id := saleId\<rparr>]
      \<and> sales_items d' = sales_items d @ map (sale_item_row saleId) ys
      \<and> member_points_history d' =
          (case memberDetails req of
             None \<Rightarrow> member_points_history d
           | Some md \<Rightarrow> member_points_history d @ [points_row req saleId md])
      \<and> members d' =
          (case memberDetails req of
             None \<Rightarrow> members d
           | Some md \<Rightarrow>
               map (\<lambda>r. if SqlStr (m_member_id r) = bind_param (memberId req)
                         then r\<lparr>m_points := bind_param (newTotalPoints md)\<rparr> else r)
                   (members d))
      \<and> inventory d' = inventory d \<and> stock_history d' = stock_history d)"

text \<open>A non-negative integer, as a column value.\<close>

definition nonneg_integer :: "sqlval \<Rightarrow> bool" where
  "nonneg_integer v = (case v of SqlNum q \<Rightarrow> 0 \<le> q \<and> q = of_int \<lfloor>q\<rfloor> | _ \<Rightarrow> False)"

definition points_invariant :: "db \<Rightarrow> bool" where
  "points_invariant d = list_all (\<lambda>r. nonneg_integer (m_points r)) (members d)"

text \<open>The events a handler added to the trace.\<close>

definition issued :: "server \<Rightarrow> server \<Rightarrow> event list" where
  "issued s s' = drop (length (trace s)) (trace s')"

subsection \<open>A storage to run the handlers on\<close>

definition example_db :: db where
  "example_db =
     \<lparr>inventory =
        [\<lparr>inv_id = 1, inv_name = SqlStr ''pen'', inv_sku = SqlStr ''P-1'',
          inv_category = SqlStr ''stationery'', inv_stock = SqlNum 5, inv_price = SqlNum 2,
          inv_reorder_point = SqlNum 1, inv_brand = SqlStr ''''\<rparr>],
      stock_history = [], sales = [], sales_items = [],
      members =
        [\<lparr>m_member_id = ''M001'', m_name = SqlStr ''Ann'', m_email = SqlStr ''ann@example.org'',
          m_phone = SqlStr ''555'', m_tier = SqlStr ''Gold'', m_points = SqlNum 100,
          m_join_date = SqlStr ''2024-01-01'', m_total_spent = SqlNum 0\<rparr>],
      member_points_history = []\<rparr>"

definition example_server :: "bool list \<Rightarrow> server" where
  "example_server fs =
     \<lparr>committed = example_db, working = example_db, in_tx = False,
      sales_auto_increment = 1, faults = fs, trace = []\<rparr>"

definition example_sale :: sale_request where
  "example_sale =
     \<lparr>transactionId = JStr ''T-1'', customerName = JNull, memberId = JStr ''M001'',
      paymentMethod = JStr ''cash'',
      items = Some [Some \<lparr>item_id = JNum 1, item_quantity = JNum 2, item_price = JNum 2,
                           item_discount = JUndefined\<rparr>],
      subtotal = JNum 4, discount = JNum 0, sst = JNum 0, totalAmount = JNum 4,
      memberDetails = Some \<lparr>pointsEarned = JNum 10, newTotalPoints = JNum 110\<rparr>\<rparr>"

section \<open>The allocator computes one plus the largest identifier number\<close>



















section \<open>Stock adjustment\<close>


lemmas io_defs = io_return_def io_throw_def io_bind_def io_catch_def io_finally_def
  run_handler_def storage_call_def Let_def
lemmas storage_defs = getConnection_def beginTransaction_def commit_def rollback_def
  release_def db_select_def db_write_def apply_write_def

lemma adjustStock_cases:
  assumes "no_pending_writes s" and "adjustStock i nq reason s = (r, s')"
  shows "(committed s' = committed s \<and> map_option status r \<noteq> Some 200) \<or>
     (\<exists>item0 rest. filter (\<lambda>r. inv_id r = i) (inventory (committed s)) = item0 # rest
        \<and> \<not> invalid_quantity nq
        \<and> committed s' =
            add_stock_history
              \<lparr>sh_inventory_id = i, sh_old_quantity = inv_stock item0,
               sh_new_quantity = bind_param nq, sh_change_reason = bind_param reason\<rparr>
              (set_stock (bind_param nq) i (committed s)))"
  using assms
  unfolding adjustStock_def adjustStock_try_def adjustStock_catch_def no_pending_writes_def
    select_inventory_def update_inventory_stock_def insert_stock_history_def
  by (auto simp: io_defs storage_defs split: if_splits list.splits)




lemma invalid_quantity_iff:
  "invalid_quantity v \<longleftrightarrow> \<not> is_number v \<or> (\<exists>q. v = JNum q \<and> q < 0)"
  by (cases v) (simp_all add: invalid_quantity_def)

lemma adjustStock_invalid:
  assumes "invalid_quantity nq" and "adjustStock i nq reason s = (r, s')"
  shows "issued s s' \<in> {[EvGetConnection],
                         [EvGetConnection, EvBeginTransaction, EvRelease],
                         [EvGetConnection, EvBeginTransaction, EvRollback, EvRelease]}"
    and "no_pending_writes s \<Longrightarrow> committed s' = committed s"
    and "map_option status r \<noteq> Some 200"
    and "faults s = [] \<Longrightarrow> r = Some (Response 400 (ErrorBody ''Invalid quantity''))"
  using assms
  unfolding adjustStock_def adjustStock_try_def adjustStock_catch_def no_pending_writes_def
    issued_def
  by (auto simp: io_defs storage_defs next_fault_def split: if_splits)

lemma set_stock_nonneg:
  assumes "row \<in> set (inventory (add_stock_history h (set_stock (SqlNum q) i d)))"
    and "inv_stock row = SqlNum q'" and "q' < 0" and "0 \<le> q"
  shows "row \<in> set (inventory d)"
  using assms by (auto simp: add_stock_history_def set_stock_def split: if_splits)





text \<open>
  Claim C4, as stated, fails: the handler tests that the quantity is a number and is not
  negative, and nothing else. The quantity 2.5 is not whole, and the request is answered
  200 with the quantity written.
\<close>


theorem adjustStock_fraction_counterexample:
  "(5 / 2 :: rat) \<noteq> of_int \<lfloor>5 / 2 :: rat\<rfloor>
   \<and> map_option status (fst (adjustStock 1 (JNum (5 / 2)) (JStr ''recount'') (example_server [])))
       = Some 200
   \<and> stock_of (committed (snd (adjustStock 1 (JNum (5 / 2)) (JStr ''recount'') (example_server []))))
        1 = Some (SqlNum (5 / 2))"
  by code_simp


text \<open>
  Claim C4, amended. A requested quantity that is not a number, or is a negative number,
  is never accepted: nothing is persisted, no write is issued, the answer is not 200, and
  without storage faults it is 400 "Invalid quantity". A non-negative number, whole or
  not, is not rejected as invalid. A stock adjustment never stores a negative quantity:
  a row with negative stock after the request was there before it.
\<close>

theorem adjustStock_rejects_invalid:
  assumes "no_pending_writes s" and "adjustStock i newQuantity reason s = (r, s')"
  shows "(\<not> is_number newQuantity \<or> (\<exists>q. newQuantity = JNum q \<and> q < 0) \<longrightarrow>
            committed s' = committed s
            \<and> map_option status r \<noteq> Some 200
            \<and> \<not> list_ex is_write (issued s s')
            \<and> (faults s = [] \<longrightarrow> r = Some (Response 400 (ErrorBody ''Invalid quantity''))))
       \<and> (\<forall>q. newQuantity = JNum q \<and> 0 \<le> q \<and> faults s = [] \<longrightarrow>
            map_option status r \<noteq> Some 400)
       \<and> (\<forall>row q. row \<in> set (inventory (committed s')) \<and> inv_stock row = SqlNum q \<and> q < 0 \<longrightarrow>
            row \<in> set (inventory (committed s)))"
proof (intro conjI impI allI)
  assume "\<not> is_number newQuantity \<or> (\<exists>q. newQuantity = JNum q \<and> q < 0)"
  then have inv: "invalid_quantity newQuantity" by (simp add: invalid_quantity_iff)
  note a = adjustStock_invalid [OF inv assms(2)]
  from a(2) assms(1) show "committed s' = committed s" by simp
  from a(3) show "map_option status r \<noteq> Some 200" .
  from a(1) show "\<not> list_ex is_write (issued s s')" by auto
  from a(4) show "r = Some (Response 400 (ErrorBody ''Invalid quantity''))" if "faults s = []"
    using that by simp
next
  fix q
  assume "newQuantity = JNum q \<and> 0 \<le> q \<and> faults s = []"
  with assms(2) show "map_option status r \<noteq> Some 400"
    unfolding adjustStock_def adjustStock_try_def adjustStock_catch_def
      select_inventory_def update_inventory_stock_def insert_stock_history_def
    by (auto simp: io_defs storage_defs next_fault_def invalid_quantity_def
          split: if_splits list.splits)
next
  fix row q
  assume neg: "row \<in> set (inventory (committed s')) \<and> inv_stock row = SqlNum q \<and> q < 0"
  from adjustStock_cases [OF assms] show "row \<in> set (inventory (committed s))"
  proof (elim disjE conjE exE)
    assume "committed s' = committed s"
    with neg show ?thesis by simp
  next
    fix item0 rest
    assume v: "\<not> invalid_quantity newQuantity"
      and c: "committed s' =
            add_stock_history
              \<lparr>sh_inventory_id = i, sh_old_quantity = inv_stock item0,
               sh_new_quantity = bind_param newQuantity, sh_change_reason = bind_param reason\<rparr>
              (set_stock (bind_param newQuantity) i (committed s))"
    from v obtain q0 where q0: "newQuantity = JNum q0" "0 \<le> q0"
      by (cases newQuantity) (auto simp: invalid_quantity_def)
    from neg show ?thesis
      unfolding c q0 using q0(2) by (auto dest: set_stock_nonneg)
  qed
qed

theorem adjustStock_rejects_invalid_witness:
  "no_pending_writes (example_server [])
   \<and> faults (example_server []) = []
   \<and> fst (adjustStock 1 (JNum (- 1)) (JStr ''recount'') (example_server []))
       = Some (Response 400 (ErrorBody ''Invalid quantity''))
   \<and> committed (snd (adjustStock 1 (JNum (- 1)) (JStr ''recount'') (example_server [])))
       = committed (example_server [])
   \<and> fst (adjustStock 1 (JStr ''7'') (JStr ''recount'') (example_server []))
       = Some (Response 400 (ErrorBody ''Invalid quantity''))
   \<and> map_option status (fst (adjustStock 1 (JNum (5 / 2)) (JStr ''recount'') (example_server [])))
       \<noteq> Some 400"
proof -
  let ?s = "example_server []"
  let ?X = "adjustStock 1 (JNum (- 1)) (JStr ''recount'') ?s"
  let ?Y = "adjustStock 1 (JStr ''7'') (JStr ''recount'') ?s"
  have h1: "no_pending_writes ?s"
    by (simp add: no_pending_writes_def example_server_def)
  have nf: "faults ?s = []" by (simp add: example_server_def)
  from adjustStock_rejects_invalid [OF h1, of 1 "JNum (- 1)" "JStr ''recount''" "fst ?X" "snd ?X"] nf
  have a: "fst ?X = Some (Response 400 (ErrorBody ''Invalid quantity''))"
    "committed (snd ?X) = committed ?s"
    by simp_all
  from adjustStock_rejects_invalid [OF h1, of 1 "JStr ''7''" "JStr ''recount''" "fst ?Y" "snd ?Y"] nf
  have b: "fst ?Y = Some (Response 400 (ErrorBody ''Invalid quantity''))"
    by simp
  let ?Z = "adjustStock 1 (JNum (5 / 2)) (JStr ''recount'') ?s"
  have c: "map_option status (fst ?Z) \<noteq> Some 400"
  proof -
    have z: "?Z = (fst ?Z, snd ?Z)" by simp
    have "\<forall>q. JNum (5 / 2) = JNum q \<and> 0 \<le> q \<and> faults ?s = [] \<longrightarrow>
            map_option status (fst ?Z) \<noteq> Some 400"
      by (rule adjustStock_rejects_invalid [OF h1 z, THEN conjunct2, THEN conjunct1])
    then have "JNum (5 / 2) = JNum (5 / 2) \<and> (0::rat) \<le> 5 / 2 \<and> faults ?s = [] \<longrightarrow>
            map_option status (fst ?Z) \<noteq> Some 400"
      by (rule spec)
    with nf show ?thesis by simp
  qed
  from h1 nf a b c show ?thesis by simp
qed

section \<open>Sale commit\<close>


lemma io_bindE:
  assumes "io_bind m f s = (res, s')"
  obtains e where "m s = (Inl e, s')" and "res = Inl e"
        | x s1 where "m s = (Inr x, s1)" and "f x s1 = (res, s')"
  using assms by (auto simp: io_bind_def split: prod.splits sum.splits)

lemma beginTransaction_result:
  assumes "beginTransaction s = (res, s')"
  shows "sales_auto_increment s' = sales_auto_increment s \<and> working s' = working s
         \<and> (\<forall>e. res = Inl e \<longrightarrow> committed s' = committed s)
         \<and> (\<forall>x. res = Inr x \<longrightarrow> committed s' = working s \<and> in_tx s')"
  using assms by (auto simp: io_defs storage_defs split: if_splits)

lemma insert_sale_result:
  assumes "insert_sale row s = (res, s')"
  shows "in_tx s \<longrightarrow> committed s' = committed s \<and> in_tx s'
           \<and> (\<forall>x. res = Inr x \<longrightarrow> x = sales_auto_increment s
                  \<and> working s' = add_sale (row\<lparr>s_id := x\<rparr>) (working s))"
  using assms by (auto simp: insert_sale_def io_defs storage_defs split: if_splits)

lemma db_write_result:
  assumes "db_write q f s = (res, s')"
  shows "in_tx s \<longrightarrow> committed s' = committed s \<and> in_tx s'
           \<and> (\<forall>x. res = Inr x \<longrightarrow> working s' = f (working s))"
  using assms by (auto simp: io_defs storage_defs split: if_splits)

lemma insert_each_result:
  assumes "insert_each saleId xs s = (res, s')"
  shows "in_tx s \<longrightarrow> committed s' = committed s \<and> in_tx s'
           \<and> (\<forall>x. res = Inr x \<longrightarrow>
                 (\<exists>ys. xs = map Some ys
                    \<and> working s' = (working s)\<lparr>sales_items :=
                          sales_items (working s) @ map (sale_item_row saleId) ys\<rparr>))"
  using assms
proof (induction saleId xs arbitrary: s rule: insert_each.induct)
  case (1 saleId)
  then show ?case by (simp add: io_return_def)
next
  case (2 saleId rest)
  then show ?case by (auto simp: io_throw_def)
next
  case (3 saleId item rest)
  from "3.prems" show ?case
  proof (simp only: insert_each.simps, elim io_bindE)
    fix e
    assume "insert_sale_item (sale_item_row saleId item) s = (Inl e, s')" and "res = Inl e"
    then show ?thesis
      using db_write_result [of InsertSaleItem _ s "Inl e" s']
      by (simp add: insert_sale_item_def)
  next
    fix x s1
    assume a: "insert_sale_item (sale_item_row saleId item) s = (Inr x, s1)"
      and b: "insert_each saleId rest s1 = (res, s')"
    from a have s1: "in_tx s \<longrightarrow> committed s1 = committed s \<and> in_tx s1
        \<and> working s1 = add_sale_item (sale_item_row saleId item) (working s)"
      using db_write_result [of InsertSaleItem _ s "Inr x" s1]
      by (simp add: insert_sale_item_def)
    show ?thesis
    proof (intro impI)
      assume tx: "in_tx s"
      with s1 "3.IH" [OF b] have
        c: "committed s' = committed s" "in_tx s'"
        and w: "\<forall>x. res = Inr x \<longrightarrow>
                 (\<exists>ys. rest = map Some ys
                    \<and> working s' = (working s1)\<lparr>sales_items :=
                          sales_items (working s1) @ map (sale_item_row saleId) ys\<rparr>)"
        by simp_all
      have "\<exists>ys. Some item # rest = map Some ys
              \<and> working s' = (working s)\<lparr>sales_items :=
                    sales_items (working s) @ map (sale_item_row saleId) ys\<rparr>"
        if "res = Inr x" for x
      proof -
        from w that obtain ys where ys: "rest = map Some ys"
          "working s' = (working s1)\<lparr>sales_items :=
               sales_items (working s1) @ map (sale_item_row saleId) ys\<rparr>"
          by blast
        with s1 tx have "Some item # rest = map Some (item # ys)
             \<and> working s' = (working s)\<lparr>sales_items :=
                   sales_items (working s) @ map (sale_item_row saleId) (item # ys)\<rparr>"
          by (simp add: add_sale_item_def)
        then show ?thesis by (rule exI)
      qed
      with c show "committed s' = committed s \<and> in_tx s'
           \<and> (\<forall>x. res = Inr x \<longrightarrow>
                 (\<exists>ys. Some item # rest = map Some ys
                    \<and> working s' = (working s)\<lparr>sales_items :=
                          sales_items (working s) @ map (sale_item_row saleId) ys\<rparr>))"
        by blast
    qed
  qed
qed


lemma insert_items_result:
  assumes "insert_items saleId its s = (res, s')"
  shows "in_tx s \<longrightarrow> committed s' = committed s \<and> in_tx s'
           \<and> (\<forall>x. res = Inr x \<longrightarrow>
                 (\<exists>ys. its = Some (map Some ys)
                    \<and> working s' = (working s)\<lparr>sales_items :=
                          sales_items (working s) @ map (sale_item_row saleId) ys\<rparr>))"
proof (cases its)
  case None
  with assms show ?thesis by (auto simp: insert_items_def io_throw_def)
next
  case (Some xs)
  with assms have "insert_each saleId xs s = (res, s')" by (simp add: insert_items_def)
  from insert_each_result [OF this] Some show ?thesis by simp
qed

lemma update_points_result:
  assumes "update_points req saleId s = (res, s')"
  shows "in_tx s \<longrightarrow> committed s' = committed s \<and> in_tx s'
           \<and> (\<forall>x. res = Inr x \<longrightarrow>
                 working s' =
                   (case memberDetails req of
                      None \<Rightarrow> working s
                    | Some md \<Rightarrow>
                        set_points (bind_param (newTotalPoints md)) (bind_param (memberId req))
                          (add_points_history (points_row req saleId md) (working s))))"
proof (cases "memberDetails req")
  case None
  with assms show ?thesis by (auto simp: update_points_def io_return_def)
next
  case (Some md)
  with assms have "io_bind (insert_points_history (points_row req saleId md)) (\<lambda>_.
          update_member_points (bind_param (newTotalPoints md)) (bind_param (memberId req))) s
        = (res, s')"
    by (simp add: update_points_def)
  then show ?thesis
  proof (cases rule: io_bindE)
    case (1 e)
    then show ?thesis
      using db_write_result [of InsertPointsHistory _ s "Inl e" s']
      by (simp add: insert_points_history_def)
  next
    case (2 x s1)
    from 2(1) have a: "in_tx s \<longrightarrow> committed s1 = committed s \<and> in_tx s1
        \<and> working s1 = add_points_history (points_row req saleId md) (working s)"
      using db_write_result [of InsertPointsHistory _ s "Inr x" s1]
      by (simp add: insert_points_history_def)
    from 2(2) have b: "in_tx s1 \<longrightarrow> committed s' = committed s1 \<and> in_tx s'
        \<and> (\<forall>x. res = Inr x \<longrightarrow> working s' =
              set_points (bind_param (newTotalPoints md)) (bind_param (memberId req)) (working s1))"
      using db_write_result [of UpdateMemberPoints _ s1 res s']
      by (simp add: update_member_points_def)
    from a b Some show ?thesis by simp
  qed
qed

lemma commit_result:
  assumes "commit s = (res, s')"
  shows "(\<forall>e. res = Inl e \<longrightarrow> committed s' = committed s \<and> in_tx s' = in_tx s)
       \<and> (\<forall>x. res = Inr x \<longrightarrow> committed s' = working s)"
  using assms by (auto simp: io_defs storage_defs split: if_splits)

lemma sale_recorded_effect:
  "sale_recorded req saleId ys d
     (case memberDetails req of
        None \<Rightarrow> (add_sale ((sale_row_of req)\<lparr>s_id := saleId\<rparr>) d)\<lparr>sales_items :=
                   sales_items d @ map (sale_item_row saleId) ys\<rparr>
      | Some md \<Rightarrow>
          set_points (bind_param (newTotalPoints md)) (bind_param (memberId req))
            (add_points_history (points_row req saleId md)
               ((add_sale ((sale_row_of req)\<lparr>s_id := saleId\<rparr>) d)\<lparr>sales_items :=
                   sales_items d @ map (sale_item_row saleId) ys\<rparr>)))"
  by (simp add: sale_recorded_def add_sale_def set_points_def add_points_history_def
        split: option.splits)

lemma commitSale_try_result:
  assumes "no_pending_writes s" and "commitSale_try req s = (res, s')"
  shows "(\<forall>e. res = Inl e \<longrightarrow> committed s' = committed s)
       \<and> (\<forall>x. res = Inr x \<longrightarrow>
             x = Response 201 (SaleRecorded (sales_auto_increment s) (transactionId req))
             \<and> (\<exists>ys. items req = Some (map Some ys)
                    \<and> sale_recorded req (sales_auto_increment s) ys (committed s) (committed s')))"
  using assms(2) unfolding commitSale_try_def
proof (elim io_bindE, goal_cases)
  case (1 e)
  with beginTransaction_result [OF 1(1)] show ?case by simp
next
  case (2 x1 s1 e)
  with beginTransaction_result [OF 2(1)] insert_sale_result [OF 2(2)] assms(1)
  show ?case by (simp add: no_pending_writes_def)
next
  case (3 x1 s1 x2 s2 e)
  with beginTransaction_result [OF 3(1)] insert_sale_result [OF 3(2)]
    insert_items_result [OF 3(3)] assms(1)
  show ?case by (simp add: no_pending_writes_def)
next
  case (4 x1 s1 x2 s2 x3 s3 e)
  with beginTransaction_result [OF 4(1)] insert_sale_result [OF 4(2)]
    insert_items_result [OF 4(3)] update_points_result [OF 4(4)] assms(1)
  show ?case by (simp add: no_pending_writes_def)
next
  case (5 x1 s1 x2 s2 x3 s3 x4 s4 e)
  with beginTransaction_result [OF 5(1)] insert_sale_result [OF 5(2)]
    insert_items_result [OF 5(3)] update_points_result [OF 5(4)] commit_result [OF 5(5)]
    assms(1)
  show ?case by (simp add: no_pending_writes_def)
next
  case (6 x1 s1 x2 s2 x3 s3 x4 s4 x5 s5)
  from beginTransaction_result [OF 6(1)] assms(1)
  have s1: "committed s1 = committed s" "working s1 = committed s" "in_tx s1"
    "sales_auto_increment s1 = sales_auto_increment s"
    by (simp_all add: no_pending_writes_def)
  from insert_sale_result [OF 6(2)] s1
  have s2: "in_tx s2" "x2 = sales_auto_increment s"
    "working s2 = add_sale ((sale_row_of req)\<lparr>s_id := x2\<rparr>) (committed s)"
    by simp_all
  from insert_items_result [OF 6(3)] s2 obtain ys where
    ys: "items req = Some (map Some ys)" and s3: "in_tx s3"
    "working s3 = (working s2)\<lparr>sales_items :=
         sales_items (working s2) @ map (sale_item_row x2) ys\<rparr>"
    by auto
  from update_points_result [OF 6(4)] s3
  have s4: "working s4 =
      (case memberDetails req of
         None \<Rightarrow> working s3
       | Some md \<Rightarrow>
           set_points (bind_param (newTotalPoints md)) (bind_param (memberId req))
             (add_points_history (points_row req x2 md) (working s3)))"
    by simp
  from commit_result [OF 6(5)] have s5: "committed s5 = working s4" by simp
  from 6(6) have r: "res = Inr (Response 201 (SaleRecorded x2 (transactionId req)))" "s' = s5"
    by (auto simp: io_return_def)
  have "sale_recorded req x2 ys (committed s) (committed s')"
    using sale_recorded_effect [of req x2 ys "committed s"]
    unfolding r s5 s4 s3 s2(3)
    by (simp add: add_sale_def split: option.splits)
  with ys r s2(2) show ?case by auto
qed

lemma commitSale_cases:
  assumes "no_pending_writes s" and "commitSale req s = (r, s')"
  shows "(committed s' = committed s \<and> map_option status r \<noteq> Some 201)
       \<or> (r = Some (Response 201 (SaleRecorded (sales_auto_increment s) (transactionId req)))
           \<and> (\<exists>ys. items req = Some (map Some ys)
                  \<and> sale_recorded req (sales_auto_increment s) ys (committed s) (committed s')))"
proof -
  obtain r0 s0 where g: "getConnection s = (r0, s0)" by force
  then have s0: "committed s0 = committed s" "working s0 = working s"
    "sales_auto_increment s0 = sales_auto_increment s"
    by (auto simp: io_defs storage_defs split: if_splits)
  then have np: "no_pending_writes s0" using assms(1) by (simp add: no_pending_writes_def)
  show ?thesis
  proof (cases r0)
    case (Inl e)
    with g assms(2) s0 show ?thesis
      by (auto simp: commitSale_def run_handler_def io_bind_def)
  next
    case (Inr u)
    obtain res s1 where t: "commitSale_try req s0 = (res, s1)" by force
    note tr = commitSale_try_result [OF np t]
    show ?thesis
    proof (cases res)
      case (Inl e)
      obtain r2 s2 where rb: "rollback s1 = (r2, s2)" by force
      then have "committed s2 = committed s1"
        by (auto simp: io_defs storage_defs split: if_splits)
      with tr Inl s0 have c: "committed s2 = committed s" by simp
      from g Inr t Inl rb assms(2) have "committed s' = committed s2"
        and "map_option status r \<noteq> Some 201"
        by (auto simp: commitSale_def commitSale_catch_def run_handler_def io_bind_def
              io_catch_def io_finally_def io_return_def release_def split: sum.splits)
      with c show ?thesis by simp
    next
      case (Inr x)
      from g \<open>r0 = Inr u\<close> t Inr assms(2) have "committed s' = committed s1" and "r = Some x"
        by (auto simp: commitSale_def run_handler_def io_bind_def
              io_catch_def io_finally_def release_def)
      with tr Inr s0 show ?thesis by auto
    qed
  qed
qed




text \<open>
  Claim C8. A sale commit, successful or not, leaves the inventory table as it was: the
  stock quantity of every item is the same after the request as before it.
\<close>

theorem commitSale_keeps_stock:
  assumes "no_pending_writes s" and "commitSale req s = (r, s')"
  shows "inventory (committed s') = inventory (committed s)
       \<and> (\<forall>i. stock_of (committed s') i = stock_of (committed s) i)"
  using commitSale_cases [OF assms]
  by (auto simp: sale_recorded_def stock_of_def)

theorem commitSale_keeps_stock_witness:
  "no_pending_writes (example_server [])
   \<and> map_option status (fst (commitSale example_sale (example_server []))) = Some 201
   \<and> stock_of (committed (snd (commitSale example_sale (example_server [])))) 1 = Some (SqlNum 5)"
proof -
  let ?s = "example_server []"
  let ?X = "commitSale example_sale ?s"
  have h1: "no_pending_writes ?s"
    by (simp add: no_pending_writes_def example_server_def)
  have ok: "map_option status (fst ?X) = Some 201" by code_simp
  have old: "stock_of (committed ?s) 1 = Some (SqlNum 5)" by code_simp
  from commitSale_keeps_stock [OF h1, of example_sale "fst ?X" "snd ?X"] old
  have "stock_of (committed (snd ?X)) 1 = Some (SqlNum 5)" by simp
  with h1 ok show ?thesis by simp
qed

text \<open>
  Claim C6. After a sale commit that answers 201 and carries member details with points
  earned \<open>e\<close> and new total \<open>t\<close>, every member row with the request's member identifier has
  balance \<open>t\<close>, whatever it was before (and the table has the same members); the commit
  appended one points-history entry, recording the member, the sale, \<open>e\<close> and \<open>t\<close>; and it
  is the only entry of that sale when no earlier entry carries the fresh sale identifier.
\<close>

theorem commitSale_points:
  assumes "no_pending_writes s" and "commitSale req s = (r, s')"
    and "map_option status r = Some 201"
    and "memberDetails req = Some \<lparr>pointsEarned = e, newTotalPoints = t\<rparr>"
  shows "(\<forall>row \<in> set (members (committed s')).
            SqlStr (m_member_id row) = bind_param (memberId req) \<longrightarrow> m_points row = bind_param t)
       \<and> map m_member_id (members (committed s')) = map m_member_id (members (committed s))
       \<and> member_points_history (committed s')
           = member_points_history (committed s) @
               [\<lparr>ph_member_id = bind_param (memberId req),
                 ph_sale_id = sales_auto_increment s,
                 ph_points_earned = bind_param e, ph_points_balance = bind_param t\<rparr>]
       \<and> r = Some (Response 201 (SaleRecorded (sales_auto_increment s) (transactionId req)))
       \<and> ((\<forall>h \<in> set (member_points_history (committed s)).
              ph_sale_id h \<noteq> sales_auto_increment s) \<longrightarrow>
            filter (\<lambda>h. ph_sale_id h = sales_auto_increment s)
                (member_points_history (committed s'))
              = [\<lparr>ph_member_id = bind_param (memberId req),
                  ph_sale_id = sales_auto_increment s,
                  ph_points_earned = bind_param e, ph_points_balance = bind_param t\<rparr>])"
proof -
  from commitSale_cases [OF assms(1,2)] assms(3) obtain ys where
    r: "r = Some (Response 201 (SaleRecorded (sales_auto_increment s) (transactionId req)))"
    and rec: "sale_recorded req (sales_auto_increment s) ys (committed s) (committed s')"
    by auto
  from rec assms(4) have
    m: "members (committed s') =
          map (\<lambda>r. if SqlStr (m_member_id r) = bind_param (memberId req)
                    then r\<lparr>m_points := bind_param t\<rparr> else r) (members (committed s))"
    and h: "member_points_history (committed s')
           = member_points_history (committed s) @
               [\<lparr>ph_member_id = bind_param (memberId req),
                 ph_sale_id = sales_auto_increment s,
                 ph_points_earned = bind_param e, ph_points_balance = bind_param t\<rparr>]"
    by (simp_all add: sale_recorded_def points_row_def)
  have m1: "\<forall>row \<in> set (members (committed s')).
            SqlStr (m_member_id row) = bind_param (memberId req) \<longrightarrow> m_points row = bind_param t"
    unfolding m by auto
  have m2: "map m_member_id (members (committed s')) = map m_member_id (members (committed s))"
    unfolding m by (simp add: comp_def if_distrib cong: if_cong)
  have f: "filter (\<lambda>h. ph_sale_id h = sales_auto_increment s)
                (member_points_history (committed s'))
              = [\<lparr>ph_member_id = bind_param (memberId req),
                  ph_sale_id = sales_auto_increment s,
                  ph_points_earned = bind_param e, ph_points_balance = bind_param t\<rparr>]"
    if "\<forall>h \<in> set (member_points_history (committed s)).
              ph_sale_id h \<noteq> sales_auto_increment s"
    unfolding h using that by (simp add: filter_empty_conv)
  from m1 m2 h r f show ?thesis by blast
qed

theorem commitSale_points_witness:
  "no_pending_writes (example_server [])
   \<and> map_option status (fst (commitSale example_sale (example_server []))) = Some 201
   \<and> memberDetails example_sale = Some \<lparr>pointsEarned = JNum 10, newTotalPoints = JNum 110\<rparr>
   \<and> map m_points (members (committed (example_server []))) = [SqlNum 100]
   \<and> map m_points (members (committed (snd (commitSale example_sale (example_server [])))))
       = [SqlNum 110]
   \<and> filter (\<lambda>h. ph_sale_id h = 1)
        (member_points_history (committed (snd (commitSale example_sale (example_server [])))))
       = [\<lparr>ph_member_id = SqlStr ''M001'', ph_sale_id = 1,
           ph_points_earned = SqlNum 10, ph_points_balance = SqlNum 110\<rparr>]"
proof -
  let ?s = "example_server []"
  let ?X = "commitSale example_sale ?s"
  have h1: "no_pending_writes ?s"
    by (simp add: no_pending_writes_def example_server_def)
  have ok: "map_option status (fst ?X) = Some 201" by code_simp
  have md: "memberDetails example_sale = Some \<lparr>pointsEarned = JNum 10, newTotalPoints = JNum 110\<rparr>"
    by (simp add: example_sale_def)
  have mid: "bind_param (memberId example_sale) = SqlStr ''M001''"
    by (simp add: example_sale_def)
  have before: "map m_points (members (committed ?s)) = [SqlNum 100]"
    "map m_member_id (members (committed ?s)) = [''M001'']"
    "member_points_history (committed ?s) = []"
    "sales_auto_increment ?s = 1"
    by (simp_all add: example_server_def example_db_def)
  note c = commitSale_points [OF h1 _ ok md, of "snd ?X", simplified mid before]
  from c have ids: "map m_member_id (members (committed (snd ?X))) = [''M001'']"
    and pts: "\<forall>row \<in> set (members (committed (snd ?X))).
                 m_member_id row = ''M001'' \<longrightarrow> m_points row = SqlNum 110"
    and f: "filter (\<lambda>h. ph_sale_id h = 1) (member_points_history (committed (snd ?X)))
       = [\<lparr>ph_member_id = SqlStr ''M001'', ph_sale_id = 1,
           ph_points_earned = SqlNum 10, ph_points_balance = SqlNum 110\<rparr>]"
    by simp_all
  from ids obtain row where row: "members (committed (snd ?X)) = [row]" "m_member_id row = ''M001''"
    by auto
  with pts have "map m_points (members (committed (snd ?X))) = [SqlNum 110]" by simp
  with h1 ok md before f show ?thesis by simp
qed

section \<open>Direct points update\<close>


lemma updateMemberPoints_cases:
  assumes "updateMemberPoints i points s = (r, s')"
  shows "(next_fault s \<and> r = Some (Response 500 (ErrorBody ''Failed to update points''))
            \<and> committed s' = committed s \<and> working s' = working s)
       \<or> (\<not> next_fault s \<and> r = Some (Response 200 SuccessTrue)
            \<and> working s' = set_points (bind_param points) (SqlStr i) (working s)
            \<and> committed s' = (if in_tx s then committed s else working s'))"
  using assms
  by (auto simp: updateMemberPoints_def update_member_points_def io_defs storage_defs
        split: if_splits)

lemma set_points_absent:
  assumes "\<forall>row \<in> set (members d). m_member_id row \<noteq> i"
  shows "set_points p (SqlStr i) d = d"
proof -
  have "map (\<lambda>r. if SqlStr (m_member_id r) = SqlStr i then r\<lparr>m_points := p\<rparr> else r) (members d)
      = members d"
    using assms by (intro map_idI) simp
  then show ?thesis by (simp add: set_points_def)
qed

lemma set_points_invariant:
  assumes "points_invariant d" and "nonneg_integer p"
  shows "points_invariant (set_points p i d)"
  using assms by (auto simp: points_invariant_def set_points_def list_all_iff)

text \<open>
  Claim C10. The direct points update answers either \<open>{success: true}\<close> or the 500
  failure, never a not-found failure; it answers \<open>{success: true}\<close> whenever its UPDATE
  statement does not fail, also when no member has the given identifier, and in that
  case no row changes.
\<close>

theorem updateMemberPoints_never_not_found:
  assumes "updateMemberPoints i points s = (r, s')"
  shows "(r = Some (Response 200 SuccessTrue)
            \<or> r = Some (Response 500 (ErrorBody ''Failed to update points'')))
       \<and> (\<not> next_fault s \<longrightarrow> r = Some (Response 200 SuccessTrue))
       \<and> (no_pending_writes s \<and> (\<forall>row \<in> set (members (committed s)). m_member_id row \<noteq> i)
            \<longrightarrow> committed s' = committed s \<and> working s' = working s)"
proof -
  have "committed s' = committed s \<and> working s' = working s"
    if np: "no_pending_writes s" and ab: "\<forall>row \<in> set (members (committed s)). m_member_id row \<noteq> i"
  proof -
    from np ab have "set_points (bind_param points) (SqlStr i) (working s) = working s"
      by (simp add: no_pending_writes_def set_points_absent)
    with updateMemberPoints_cases [OF assms] np show ?thesis
      by (auto simp: no_pending_writes_def)
  qed
  with updateMemberPoints_cases [OF assms] show ?thesis by blast
qed

theorem updateMemberPoints_never_not_found_witness:
  "\<not> next_fault (example_server [])
   \<and> no_pending_writes (example_server [])
   \<and> map m_member_id (members (committed (example_server []))) = [''M001'']
   \<and> fst (updateMemberPoints ''M404'' (JNum 50) (example_server [])) = Some (Response 200 SuccessTrue)
   \<and> committed (snd (updateMemberPoints ''M404'' (JNum 50) (example_server [])))
       = committed (example_server [])"
proof -
  let ?s = "example_server []"
  let ?X = "updateMemberPoints ''M404'' (JNum 50) ?s"
  have h1: "no_pending_writes ?s"
    by (simp add: no_pending_writes_def example_server_def)
  have nf: "\<not> next_fault ?s" by (simp add: next_fault_def example_server_def)
  have ids: "map m_member_id (members (committed ?s)) = [''M001'']"
    by (simp add: example_server_def example_db_def)
  then have ab: "\<forall>row \<in> set (members (committed ?s)). m_member_id row \<noteq> ''M404''"
    by (simp add: example_server_def example_db_def)
  from updateMemberPoints_never_not_found [of "''M404''" "JNum 50" ?s "fst ?X" "snd ?X"] nf h1 ab
  have "fst ?X = Some (Response 200 SuccessTrue)" and "committed (snd ?X) = committed ?s"
    by simp_all
  with h1 nf ids show ?thesis by simp
qed

text \<open>
  Claim C9, as stated, fails: the direct points update stores the value it is given. On a
  storage where every balance is a non-negative integer, the request \<open>{points: -5}\<close> for an
  existing member is answered \<open>{success: true}\<close> and leaves the balance at \<open>-5\<close>.
\<close>

theorem points_balance_negative_counterexample:
  "points_invariant (committed (example_server []))
   \<and> fst (updateMemberPoints ''M001'' (JNum (- 5)) (example_server []))
       = Some (Response 200 SuccessTrue)
   \<and> map m_points (members (committed (snd
        (updateMemberPoints ''M001'' (JNum (- 5)) (example_server []))))) = [SqlNum (- 5)]
   \<and> \<not> points_invariant (committed (snd
        (updateMemberPoints ''M001'' (JNum (- 5)) (example_server []))))"
  by code_simp


text \<open>
  Claim C9, amended. Both operations that write the balance store the value the caller
  supplies, without a check of their own: they preserve the invariant "every balance is a
  non-negative integer" whenever the supplied value (\<open>points\<close>, respectively
  \<open>newTotalPoints\<close>) is a non-negative integer.
\<close>

theorem points_invariant_preserved:
  assumes "no_pending_writes s" and "points_invariant (committed s)"
  shows "(nonneg_integer (bind_param points) \<longrightarrow>
            points_invariant (committed (snd (updateMemberPoints i points s))))
       \<and> ((case memberDetails req of
             None \<Rightarrow> True
           | Some md \<Rightarrow> nonneg_integer (bind_param (newTotalPoints md))) \<longrightarrow>
            points_invariant (committed (snd (commitSale req s))))"
proof (intro conjI impI)
  assume p: "nonneg_integer (bind_param points)"
  obtain r s' where u: "updateMemberPoints i points s = (r, s')" by force
  from updateMemberPoints_cases [OF u] assms set_points_invariant [OF _ p, of "working s" "SqlStr i"]
  have "points_invariant (committed s')"
    by (auto simp: no_pending_writes_def split: if_splits)
  with u show "points_invariant (committed (snd (updateMemberPoints i points s)))" by simp
next
  assume p: "case memberDetails req of
             None \<Rightarrow> True
           | Some md \<Rightarrow> nonneg_integer (bind_param (newTotalPoints md))"
  obtain r s' where c: "commitSale req s = (r, s')" by force
  from commitSale_cases [OF assms(1) c] have "points_invariant (committed s')"
  proof (elim disjE conjE exE)
    assume "committed s' = committed s"
    with assms(2) show ?thesis by simp
  next
    fix ys
    assume "sale_recorded req (sales_auto_increment s) ys (committed s) (committed s')"
    with p assms(2) show ?thesis
      by (auto simp: sale_recorded_def points_invariant_def list_all_iff split: option.splits)
  qed
  with c show "points_invariant (committed (snd (commitSale req s)))" by simp
qed

theorem points_invariant_preserved_witness:
  "no_pending_writes (example_server [])
   \<and> points_invariant (committed (example_server []))
   \<and> nonneg_integer (bind_param (JNum 250))
   \<and> points_invariant (committed (snd (updateMemberPoints ''M001'' (JNum 250) (example_server []))))
   \<and> nonneg_integer (bind_param (JNum 110))
   \<and> points_invariant (committed (snd (commitSale example_sale (example_server []))))"
proof -
  let ?s = "example_server []"
  have h1: "no_pending_writes ?s"
    by (simp add: no_pending_writes_def example_server_def)
  have h2: "points_invariant (committed ?s)" by code_simp
  have p1: "nonneg_integer (bind_param (JNum 250))" by code_simp
  have p2: "nonneg_integer (bind_param (JNum 110))" by code_simp
  then have p2': "case memberDetails example_sale of
             None \<Rightarrow> True
           | Some md \<Rightarrow> nonneg_integer (bind_param (newTotalPoints md))"
    by (simp add: example_sale_def)
  from points_invariant_preserved [OF h1 h2, of "JNum 250" "''M001''" example_sale] p1 p2'
  have "points_invariant (committed (snd (updateMemberPoints ''M001'' (JNum 250) ?s)))"
    and "points_invariant (committed (snd (commitSale example_sale ?s)))"
    by simp_all
  with h1 h2 p1 p2 show ?thesis by simp
qed

section \<open>Validation\<close>








text \<open>
  Claim C7. The member-creation handler throws on a missing field inside its
  \<^verbatim>\<open>try\<close> block, and the \<^verbatim>\<open>catch\<close> block answers every exception with status 500: a request
  without \<open>name\<close> is answered 500, not 400, and no member is inserted.
\<close>

theorem createMember_missing_field_500:
  "missing_fields \<lparr>name = JUndefined, email = JStr ''bob@example.org'', phone = JStr ''556'',
                   tier = JStr ''Gold''\<rparr>
   \<and> fst (createMember
        \<lparr>name = JUndefined, email = JStr ''bob@example.org'', phone = JStr ''556'',
         tier = JStr ''Gold''\<rparr> (SqlStr ''2024-06-01'') (example_server []))
       = Some (Response 500
           (RegistrationFailed (JsError ''Name, email, phone and tier are required'')))
   \<and> members (committed (snd (createMember
        \<lparr>name = JUndefined, email = JStr ''bob@example.org'', phone = JStr ''556'',
         tier = JStr ''Gold''\<rparr> (SqlStr ''2024-06-01'') (example_server []))))
       = members (committed (example_server []))"
  by code_simp

end
